theory Spec2Isabelle
  imports Main
begin

section \<open>The cluster module of the Microkernel: data model\<close>

text \<open>
  The module \<^verbatim>\<open>microkernel-mod-cluster.js\<close> integrates the Node.js cluster mechanism into
  the Microkernel server environment. Its methods \<^verbatim>\<open>prepare\<close> and \<^verbatim>\<open>stop\<close> and the
  callbacks they register are embedded here as functions that return the calls they make
  on their collaborators (the kernel, the cluster facility, a worker object, the timer)
  as a list of effects, in program order.
\<close>

subsection \<open>JavaScript values\<close>

text \<open>
  The loosely typed slots of the source (an IPC message, the \<^verbatim>\<open>code\<close> and \<^verbatim>\<open>signal\<close>
  of an exit event, \<^verbatim>\<open>worker.suicide\<close>, the arguments of \<^verbatim>\<open>sprintf\<close>) hold
  JavaScript values. Numbers are the integers the code meets (ids, pids, exit codes).
\<close>

datatype jsval =
    JUndefined
  | JNull
  | JBool bool
  | JNum int
  | JStr string
  | JObj "(string \<times> jsval) list"

text \<open>The truthiness test of \<^verbatim>\<open>if (v)\<close>, \<^verbatim>\<open>v ? a : b\<close> and \<^verbatim>\<open>!v\<close>.\<close>

fun truthy :: "jsval \<Rightarrow> bool" where
  "truthy JUndefined = False"
| "truthy JNull = False"
| "truthy (JBool b) = b"
| "truthy (JNum n) = (n \<noteq> 0)"
| "truthy (JStr s) = (s \<noteq> [])"
| "truthy (JObj fs) = True"

text \<open>
  The string of a non-negative integer, as \<^verbatim>\<open>"WORKER-" + cluster.worker.id\<close> converts
  the number: its decimal digits.
\<close>

definition digit :: "nat \<Rightarrow> char" where
  "digit d = ''0123456789'' ! (d mod 10)"

fun Number_toString :: "nat \<Rightarrow> string" where
  "Number_toString n =
     (if n < 10 then [digit n] else Number_toString (n div 10) @ [digit n])"

declare Number_toString.simps [simp del]

subsection \<open>Workers, the cluster facility, the kernel\<close>

text \<open>
  A worker object of the cluster facility, with the properties the module reads:
  \<^verbatim>\<open>worker.id\<close>, \<^verbatim>\<open>worker.process.pid\<close>, \<^verbatim>\<open>worker.suicide\<close> (undefined until the
  master calls \<^verbatim>\<open>disconnect\<close> or \<^verbatim>\<open>kill\<close> on the worker), and the answers of
  \<^verbatim>\<open>worker.isConnected()\<close> and \<^verbatim>\<open>worker.isDead()\<close>.
\<close>

record worker =
  wid :: nat
  pid :: nat
  suicide :: jsval
  connected :: bool
  dead :: bool

definition isConnected :: "worker \<Rightarrow> bool" where
  "isConnected w = connected w"

definition isDead :: "worker \<Rightarrow> bool" where
  "isDead w = dead w"

text \<open>
  \<^verbatim>\<open>cluster.workers\<close> is an object that maps worker ids to worker objects: an association
  list, read with \<open>map_of\<close>. \<^verbatim>\<open>Object.keys\<close> lists each key once, integer keys in
  ascending order.
\<close>

type_synonym pool = "(nat \<times> worker) list"

definition Object_keys :: "pool \<Rightarrow> nat list" where
  "Object_keys ws = sort (remdups (map fst ws))"

text \<open>
  The cluster facility as this process sees it: \<^verbatim>\<open>cluster.isMaster\<close>,
  \<^verbatim>\<open>cluster.worker\<close> (the own worker object, undefined in the master) and
  \<^verbatim>\<open>cluster.workers\<close>. \<^verbatim>\<open>cluster.isWorker\<close> is the negation of \<^verbatim>\<open>cluster.isMaster\<close>.
\<close>

record cluster_t =
  isMaster :: bool
  worker :: "worker option"
  workers :: pool

definition isWorker :: "cluster_t \<Rightarrow> bool" where
  "isWorker c = (\<not> isMaster c)"

text \<open>
  The kernel: the parsed options (\<^verbatim>\<open>kernel.rs("options:options")\<close>) and the other entries
  of its key/value registry that the module reads or writes.
\<close>

record options =
  cluster :: int
  daemon :: bool
  daemon_kill :: bool

datatype rsval = RsCluster | RsStr string

record kernel =
  options :: options
  rs :: "string \<rightharpoonup> rsval"

subsection \<open>Effects\<close>

text \<open>
  A log message is either a plain string or the call of \<^verbatim>\<open>sprintf\<close> that builds it,
  with its format and its evaluated arguments.
\<close>

datatype logmsg = Plain string | Sprintf string "jsval list"

datatype effect =
    ClusterOn string                \<comment> \<open>\<^verbatim>\<open>cluster.on(event, handler)\<close>\<close>
  | ProcessOn string                \<comment> \<open>\<^verbatim>\<open>process.on(event, handler)\<close>\<close>
  | Latch string                    \<comment> \<open>\<^verbatim>\<open>kernel.latch(hook, callback)\<close>\<close>
  | Log string string logmsg        \<comment> \<open>\<^verbatim>\<open>kernel.sv("log", facility, severity, message)\<close>\<close>
  | Shutdown string                 \<comment> \<open>\<^verbatim>\<open>kernel.sv("shutdown", reason)\<close>\<close>
  | Fork                            \<comment> \<open>\<^verbatim>\<open>cluster.fork()\<close>\<close>
  | Send nat jsval                  \<comment> \<open>\<^verbatim>\<open>cluster.workers[id].send(message)\<close>\<close>
  | Disconnect nat                  \<comment> \<open>\<^verbatim>\<open>cluster.workers[id].disconnect()\<close>\<close>
  | Kill nat                        \<comment> \<open>\<^verbatim>\<open>cluster.workers[id].kill()\<close>\<close>
  | SetInterval nat                 \<comment> \<open>\<^verbatim>\<open>setInterval(callback, ms)\<close>\<close>
  | ClearTimeout                    \<comment> \<open>\<^verbatim>\<open>clearTimeout(interval)\<close>\<close>
  | Resolve                         \<comment> \<open>\<^verbatim>\<open>resolve()\<close> of the promise of \<^verbatim>\<open>stop\<close>\<close>

datatype exn = TypeError | SendFailed | DisconnectFailed | KillFailed

text \<open>How many log lines of a severity a trace holds.\<close>

fun has_severity :: "string \<Rightarrow> effect \<Rightarrow> bool" where
  "has_severity sev (Log facility severity m) = (severity = sev)"
| "has_severity sev e = False"

definition severity_count :: "string \<Rightarrow> effect list \<Rightarrow> nat" where
  "severity_count sev es = length (filter (has_severity sev) es)"

text \<open>
  \<^verbatim>\<open>xs.forEach(f)\<close> where \<open>f\<close> may throw: the effects made so far, and the exception
  that ended the traversal, if any.
\<close>

fun forEach :: "('a \<Rightarrow> effect list \<times> exn option) \<Rightarrow> 'a list \<Rightarrow> effect list \<times> exn option" where
  "forEach f [] = ([], None)"
| "forEach f (x # xs) =
     (case f x of
        (es, Some ex) \<Rightarrow> (es, Some ex)
      | (es, None) \<Rightarrow> (case forEach f xs of (es', r) \<Rightarrow> (es @ es', r)))"

section \<open>prepare\<close>

subsection \<open>The handlers of the worker process events (master)\<close>

definition on_fork :: "worker \<Rightarrow> effect list" where
  "on_fork w =
     [Log ''cluster'' ''debug'' (Sprintf ''worker #%d (pid: %d): forked''
        [JNum (int (wid w)), JNum (int (pid w))])]"

definition on_online :: "worker \<Rightarrow> effect list" where
  "on_online w =
     [Log ''cluster'' ''trace'' (Sprintf ''worker #%d (pid: %d): online''
        [JNum (int (wid w)), JNum (int (pid w))])]"

record addr =
  address :: string
  port :: int
  addressType :: int

definition on_listening :: "worker \<Rightarrow> addr \<Rightarrow> effect list" where
  "on_listening w a =
     [Log ''cluster'' ''trace'' (Sprintf ''worker #%d (pid: %d): listening to %s:%d [TCPv%d]''
        [JNum (int (wid w)), JNum (int (pid w)),
         JStr (address a), JNum (port a), JNum (addressType a)])]"

definition on_disconnect :: "worker \<Rightarrow> effect list" where
  "on_disconnect w =
     [Log ''cluster'' ''trace'' (Sprintf ''worker #%d (pid: %d): IPC channel disconnected''
        [JNum (int (wid w)), JNum (int (pid w))])]"

text \<open>The handler of \<^verbatim>\<open>exit\<close>: log the termination, re-fork after an unexpected one.\<close>

definition on_exit :: "worker \<Rightarrow> jsval \<Rightarrow> jsval \<Rightarrow> effect list" where
  "on_exit w code signal =
     (let way = (if truthy (suicide w) then ''expectedly'' else ''unexpectedly'') in
      [if truthy signal then
         Log ''cluster'' ''trace'' (Sprintf ''worker #%d (pid: %d): %s terminated by signal %s''
           [JNum (int (wid w)), JNum (int (pid w)), JStr way, signal])
       else if code \<noteq> JNum 0 then
         Log ''cluster'' ''trace'' (Sprintf ''worker #%d (pid: %d): %s terminated due to error (exit code %d)''
           [JNum (int (wid w)), JNum (int (pid w)), JStr way, code])
       else
         Log ''cluster'' ''trace'' (Sprintf ''worker #%d (pid: %d): %s terminated with success''
           [JNum (int (wid w)), JNum (int (pid w)), JStr way])]
      @ (if \<not> truthy (suicide w) then
           [Log ''cluster'' ''info'' (Sprintf ''re-forking WORKER process after unexpected termination'' []),
            Fork]
         else []))"

subsection \<open>The handler of IPC messages (worker)\<close>

text \<open>
  The arguments of \<^verbatim>\<open>sprintf\<close> are evaluated before anything is logged, so reading
  \<^verbatim>\<open>cluster.worker.id\<close> of an undefined \<^verbatim>\<open>cluster.worker\<close> throws before any effect.
\<close>

definition on_message :: "cluster_t \<Rightarrow> jsval \<Rightarrow> exn + effect list" where
  "on_message c msg =
     (if msg = JStr ''shutdown'' then
        (case worker c of
           None \<Rightarrow> Inl TypeError
         | Some w \<Rightarrow>
             Inr [Log ''cluster'' ''trace'' (Sprintf ''worker #%d (pid: %d): received shutdown message''
                    [JNum (int (wid w)), JNum (int (pid w))]),
                  Shutdown ''received MASTER shutdown message''])
      else Inr [])"

subsection \<open>The two decorators\<close>

definition logger_msg :: "cluster_t \<Rightarrow> string \<Rightarrow> exn + string" where
  "logger_msg c msg =
     (if isWorker c then
        (case worker c of
           None \<Rightarrow> Inl TypeError
         | Some w \<Rightarrow> Inr (''['' @ (''WORKER-'' @ Number_toString (wid w)) @ '']: '' @ msg))
      else Inr (''['' @ ''MASTER'' @ '']: '' @ msg))"

text \<open>The title decorator closes over \<open>mode\<close>, the constant that \<^verbatim>\<open>prepare\<close> computed.\<close>

definition title_title :: "string \<Rightarrow> cluster_t \<Rightarrow> string \<Rightarrow> exn + string" where
  "title_title mode c title =
     (if mode = ''master'' then Inr (title @ '' [MASTER]'')
      else if mode = ''worker'' then
        (case worker c of
           None \<Rightarrow> Inl TypeError
         | Some w \<Rightarrow> Inr (title @ ('' [WORKER-'' @ Number_toString (wid w) @ '']'')))
      else Inr title)"

subsection \<open>prepare itself\<close>

definition procmode :: "cluster_t \<Rightarrow> string" where
  "procmode c = (if isMaster c then ''master'' else ''worker'')"

text \<open>The loop \<^verbatim>\<open>for (let i = 0; i < workers; i++) cluster.fork()\<close>.\<close>

function fork_loop :: "int \<Rightarrow> int \<Rightarrow> effect list" where
  "fork_loop i n = (if i < n then Fork # fork_loop (i + 1) n else [])"
  by pat_completeness auto
termination
  by (relation "measure (\<lambda>(i, n). nat (n - i))") auto

declare fork_loop.simps [simp del]

definition prepare :: "kernel \<Rightarrow> cluster_t \<Rightarrow> kernel \<times> effect list" where
  "prepare k c =
     (if cluster (options k) = 0 then (k, [])
      else if daemon (options k) \<or> daemon_kill (options k) then (k, [])
      else
        (let mode = procmode c;
             k' = k\<lparr>rs := (rs k)(''cluster'' \<mapsto> RsCluster, ''ctx:procmode'' \<mapsto> RsStr mode)\<rparr>
         in (k',
             (if mode = ''master'' then
                [ClusterOn ''fork'', ClusterOn ''online'', ClusterOn ''listening'',
                 ClusterOn ''disconnect'', ClusterOn ''exit'',
                 Log ''cluster'' ''info''
                   (Sprintf ''forking %d WORKER processes'' [JNum (cluster (options k))])]
                @ fork_loop 0 (cluster (options k))
              else if mode = ''worker'' then [ProcessOn ''message'']
              else [])
             @ [Latch ''logger:msg'', Latch ''title:title''])))"

section \<open>stop\<close>

text \<open>
  \<^verbatim>\<open>worker.send(message)\<close> and \<^verbatim>\<open>worker.disconnect()\<close> may throw; whether they do
  for the worker under a key is given by the environment, as two predicates on keys. The
  call is in the trace either way.
\<close>

record ipc_env =
  send_throws :: "nat \<Rightarrow> bool"
  disconnect_throws :: "nat \<Rightarrow> bool"

definition worker_send :: "ipc_env \<Rightarrow> nat \<Rightarrow> jsval \<Rightarrow> effect list \<times> exn option" where
  "worker_send io k msg = ([Send k msg], if send_throws io k then Some SendFailed else None)"

definition worker_disconnect :: "ipc_env \<Rightarrow> nat \<Rightarrow> effect list \<times> exn option" where
  "worker_disconnect io k =
     ([Disconnect k], if disconnect_throws io k then Some DisconnectFailed else None)"

text \<open>Two statements in sequence: the second runs when the first did not throw.\<close>

definition then_do ::
  "effect list \<times> exn option \<Rightarrow> effect list \<times> exn option \<Rightarrow> effect list \<times> exn option" where
  "then_do r1 r2 =
     (case r1 of
        (es, Some ex) \<Rightarrow> (es, Some ex)
      | (es, None) \<Rightarrow> (es @ fst r2, snd r2))"

text \<open>
  The body of the first traversal: the shutdown message, then the disconnect, with no
  \<^verbatim>\<open>try\<close> around them.
\<close>

definition shutdown_body :: "ipc_env \<Rightarrow> pool \<Rightarrow> nat \<Rightarrow> effect list \<times> exn option" where
  "shutdown_body io ws k =
     (case map_of ws k of
        None \<Rightarrow> ([], Some TypeError)
      | Some w \<Rightarrow>
          if isConnected w then
            then_do (worker_send io k (JStr ''shutdown'')) (worker_disconnect io k)
          else ([], None))"

text \<open>
  \<^verbatim>\<open>worker.kill()\<close> may throw; whether it does for the worker under a key is given by
  the environment, as a predicate on keys. \<^verbatim>\<open>try { ... } catch (ex) { }\<close> keeps the
  effects and drops the exception.
\<close>

definition worker_kill :: "(nat \<Rightarrow> bool) \<Rightarrow> nat \<Rightarrow> effect list \<times> exn option" where
  "worker_kill throws k = ([Kill k], if throws k then Some KillFailed else None)"

definition try_catch_nop :: "effect list \<times> exn option \<Rightarrow> effect list \<times> exn option" where
  "try_catch_nop r = (fst r, None)"

definition kill_body :: "(nat \<Rightarrow> bool) \<Rightarrow> pool \<Rightarrow> nat \<Rightarrow> effect list \<times> exn option" where
  "kill_body throws ws k =
     (case map_of ws k of
        None \<Rightarrow> ([], Some TypeError)
      | Some w \<Rightarrow>
          if \<not> isDead w then
            (case try_catch_nop (worker_kill throws k) of
               (es, r) \<Rightarrow>
                 (Log ''cluster'' ''trace'' (Sprintf ''remaining worker #%d (pid: %d): to be killed now''
                    [JNum (int (wid w)), JNum (int (pid w))]) # es, r))
          else ([], None))"

text \<open>The first traversal of \<^verbatim>\<open>stop\<close>, over \<^verbatim>\<open>Object.keys(cluster.workers)\<close>.\<close>

definition graceful :: "ipc_env \<Rightarrow> pool \<Rightarrow> effect list \<times> exn option" where
  "graceful io ws = forEach (shutdown_body io ws) (Object_keys ws)"

text \<open>
  The interval callback runs once per timer tick. What it sees at a tick, the pool
  \<^verbatim>\<open>cluster.workers\<close> and which \<^verbatim>\<open>kill\<close> calls throw, is the environment's. It leaves
  the timer running, or cleared, or it throws.
\<close>

datatype tick = Continue | Cleared | Threw exn

definition interval_callback :: "(nat \<Rightarrow> bool) \<Rightarrow> pool \<Rightarrow> effect list \<times> tick" where
  "interval_callback throws ws =
     (let workers = Object_keys ws in
      if length workers = 0 then ([ClearTimeout, Resolve], Cleared)
      else
        (case forEach (kill_body throws ws) workers of
           (es, Some ex) \<Rightarrow> (es, Threw ex)
         | (es, None) \<Rightarrow> (es, Continue)))"

text \<open>
  The state of the promise that \<^verbatim>\<open>stop\<close> returns. An exception that leaves the executor
  rejects the promise; one that leaves the timer callback is uncaught.
\<close>

datatype status = Pending | Resolved | Rejected exn | Uncaught exn

text \<open>
  The timer: one callback per observed tick, until the callback clears the timer. The
  argument lists the ticks observed so far, each with what the environment shows then.
\<close>

fun drain :: "(pool \<times> (nat \<Rightarrow> bool)) list \<Rightarrow> effect list \<times> status" where
  "drain [] = ([], Pending)"
| "drain ((ws, throws) # ticks) =
     (case interval_callback throws ws of
        (es, Cleared) \<Rightarrow> (es, Resolved)
      | (es, Threw ex) \<Rightarrow> (es, Uncaught ex)
      | (es, Continue) \<Rightarrow> (case drain ticks of (es', st) \<Rightarrow> (es @ es', st)))"

declare drain.simps(2) [simp del]

text \<open>
  \<^verbatim>\<open>stop\<close> returns nothing (\<open>None\<close>) behind its two guards, and the promise otherwise:
  the effects of the executor and of the ticks, and the state the promise has reached.
  When the first traversal throws, the exception leaves the executor: the promise is
  rejected and \<^verbatim>\<open>setInterval\<close> is not reached.
\<close>

definition stop ::
  "kernel \<Rightarrow> cluster_t \<Rightarrow> ipc_env \<Rightarrow> (pool \<times> (nat \<Rightarrow> bool)) list \<Rightarrow> (effect list \<times> status) option" where
  "stop k c io ticks =
     (if rs k ''ctx:procmode'' \<noteq> Some (RsStr ''master'') then None
      else if daemon (options k) \<or> daemon_kill (options k) then None
      else Some
        (case graceful io (workers c) of
           (es, Some ex) \<Rightarrow>
             (Log ''cluster'' ''info'' (Plain ''shutdown WORKER processes'') # es, Rejected ex)
         | (es, None) \<Rightarrow>
             (case drain ticks of
                (es', st) \<Rightarrow>
                  (Log ''cluster'' ''info'' (Plain ''shutdown WORKER processes'') # es
                   @ [SetInterval 100] @ es', st))))"


section \<open>Sample inputs\<close>

definition worker_1 :: worker where
  "worker_1 = \<lparr>wid = 1, pid = 4001, suicide = JUndefined, connected = True, dead = False\<rparr>"

definition worker_2 :: worker where
  "worker_2 = \<lparr>wid = 2, pid = 4002, suicide = JBool True, connected = False, dead = False\<rparr>"

definition worker_3 :: worker where
  "worker_3 = \<lparr>wid = 3, pid = 4003, suicide = JBool True, connected = False, dead = True\<rparr>"

definition worker_12 :: worker where
  "worker_12 = \<lparr>wid = 12, pid = 4012, suicide = JUndefined, connected = True, dead = False\<rparr>"

definition master_cluster :: cluster_t where
  "master_cluster =
     \<lparr>isMaster = True, worker = None, workers = [(1, worker_1), (2, worker_2), (3, worker_3)]\<rparr>"

definition idle_cluster :: cluster_t where
  "idle_cluster = \<lparr>isMaster = True, worker = None, workers = []\<rparr>"

definition worker_cluster :: cluster_t where
  "worker_cluster = \<lparr>isMaster = False, worker = Some worker_12, workers = []\<rparr>"

definition kernel_of :: "int \<Rightarrow> bool \<Rightarrow> bool \<Rightarrow> (string \<rightharpoonup> rsval) \<Rightarrow> kernel" where
  "kernel_of n d dk registry =
     \<lparr>options = \<lparr>cluster = n, daemon = d, daemon_kill = dk\<rparr>, rs = registry\<rparr>"

definition never_throws :: "nat \<Rightarrow> bool" where
  "never_throws k = False"

definition always_throws :: "nat \<Rightarrow> bool" where
  "always_throws k = True"

definition sound_ipc :: ipc_env where
  "sound_ipc = \<lparr>send_throws = never_throws, disconnect_throws = never_throws\<rparr>"

definition broken_ipc :: ipc_env where
  "broken_ipc = \<lparr>send_throws = always_throws, disconnect_throws = never_throws\<rparr>"

section \<open>Helper lemmas\<close>

subsection \<open>The fork loop\<close>

lemma fork_loop_replicate: "fork_loop i n = replicate (nat (n - i)) Fork"
proof (induction i n rule: fork_loop.induct)
  case (1 i n)
  show ?case
  proof (cases "i < n")
    case True
    then have "nat (n - i) = Suc (nat (n - (i + 1)))" by simp
    with 1 True show ?thesis by (simp add: fork_loop.simps [of i n])
  next
    case False
    then show ?thesis by (simp add: fork_loop.simps [of i n])
  qed
qed

lemma count_list_replicate: "count_list (replicate m x) x = m"
  by (induction m) auto

subsection \<open>Traversals, the first pass of stop, the timer\<close>

lemma forEach_no_throw:
  "(\<And>x. x \<in> set xs \<Longrightarrow> snd (f x) = None) \<Longrightarrow>
   forEach f xs = (concat (map (\<lambda>x. fst (f x)) xs), None)"
proof (induction xs)
  case Nil
  then show ?case by simp
next
  case (Cons x xs)
  have "snd (f x) = None" using Cons.prems by simp
  then obtain es where fx: "f x = (es, None)" by (cases "f x") auto
  have "forEach f xs = (concat (map (\<lambda>x. fst (f x)) xs), None)"
    using Cons by simp
  with fx show ?case by simp
qed

lemma forEach_cong_on:
  "(\<And>x. x \<in> set xs \<Longrightarrow> f x = g x) \<Longrightarrow> forEach f xs = forEach g xs"
  by (induction xs) auto

lemma set_Object_keys: "set (Object_keys ws) = fst ` set ws"
  by (simp add: Object_keys_def)


lemma Object_keys_lookup: "k \<in> set (Object_keys ws) \<longleftrightarrow> (\<exists>w. map_of ws k = Some w)"
proof -
  have "k \<in> fst ` set ws \<longleftrightarrow> map_of ws k \<noteq> None"
    by (simp add: map_of_eq_None_iff)
  then show ?thesis by (auto simp: set_Object_keys)
qed

lemma Object_keys_empty: "Object_keys ws = [] \<longleftrightarrow> ws = []"
proof -
  have "Object_keys ws = [] \<longleftrightarrow> set (Object_keys ws) = {}" by simp
  also have "\<dots> \<longleftrightarrow> ws = []" by (simp add: set_Object_keys)
  finally show ?thesis .
qed



lemma forEach_thrown:
  "snd (forEach f xs) = Some ex \<Longrightarrow> \<exists>x \<in> set xs. snd (f x) = Some ex"
proof (induction xs)
  case Nil
  then show ?case by simp
next
  case (Cons x xs)
  obtain es r where fx: "f x = (es, r)" by (cases "f x")
  show ?case
  proof (cases r)
    case None
    then show ?thesis using Cons fx by (cases "forEach f xs") auto
  next
    case (Some ex')
    then show ?thesis using Cons.prems fx by simp
  qed
qed

lemma shutdown_body_known:
  "map_of ws k = Some w \<Longrightarrow>
   shutdown_body io ws k =
     (if isConnected w then
        (if send_throws io k then ([Send k (JStr ''shutdown'')], Some SendFailed)
         else if disconnect_throws io k then
           ([Send k (JStr ''shutdown''), Disconnect k], Some DisconnectFailed)
         else ([Send k (JStr ''shutdown''), Disconnect k], None))
      else ([], None))"
  by (simp add: shutdown_body_def then_do_def worker_send_def worker_disconnect_def)



lemma shutdown_body_thrown:
  assumes "snd (shutdown_body io ws j) = Some ex" and "map_of ws j = Some w"
  shows "isConnected w \<and>
         (ex = SendFailed \<and> send_throws io j \<or> ex = DisconnectFailed \<and> disconnect_throws io j)"
  using assms by (auto simp: shutdown_body_known split: if_splits)



lemma graceful_thrown:
  assumes "snd (graceful io ws) = Some ex"
  shows "\<exists>j w. map_of ws j = Some w \<and> isConnected w \<and>
           (ex = SendFailed \<and> send_throws io j \<or> ex = DisconnectFailed \<and> disconnect_throws io j)"
proof -
  obtain j where j: "j \<in> set (Object_keys ws)" "snd (shutdown_body io ws j) = Some ex"
    using assms forEach_thrown [of "shutdown_body io ws" "Object_keys ws" ex]
    by (auto simp: graceful_def)
  then obtain w where "map_of ws j = Some w" by (auto simp: Object_keys_lookup)
  then show ?thesis using shutdown_body_thrown [OF j(2)] by blast
qed

lemma graceful_sound:
  assumes "\<And>j. \<not> send_throws io j" and "\<And>j. \<not> disconnect_throws io j"
  shows "snd (graceful io ws) = None"
proof (cases "snd (graceful io ws)")
  case None
  then show ?thesis .
next
  case (Some ex)
  then show ?thesis using graceful_thrown [of io ws ex] assms by blast
qed






lemma kill_body_known:
  "map_of ws k = Some w \<Longrightarrow>
   kill_body throws ws k =
     (if \<not> isDead w then
        [Log ''cluster'' ''trace'' (Sprintf ''remaining worker #%d (pid: %d): to be killed now''
           [JNum (int (wid w)), JNum (int (pid w))]), Kill k]
      else [], None)"
  by (simp add: kill_body_def try_catch_nop_def worker_kill_def)

lemma kill_forEach_concat:
  "forEach (kill_body throws ws) (Object_keys ws) =
     (concat (map (\<lambda>k. fst (kill_body throws ws k)) (Object_keys ws)), None)"
proof (rule forEach_no_throw)
  fix k assume "k \<in> set (Object_keys ws)"
  then obtain w where "map_of ws k = Some w" by (auto simp: Object_keys_lookup)
  then show "snd (kill_body throws ws k) = None" by (simp add: kill_body_known)
qed

lemma kill_forEach_throws:
  "forEach (kill_body throws ws) (Object_keys ws) = forEach (kill_body throws' ws) (Object_keys ws)"
proof (rule forEach_cong_on)
  fix k assume "k \<in> set (Object_keys ws)"
  then obtain w where "map_of ws k = Some w" by (auto simp: Object_keys_lookup)
  then show "kill_body throws ws k = kill_body throws' ws k" by (simp add: kill_body_known)
qed

lemma callback_throws: "interval_callback throws ws = interval_callback throws' ws"
  by (simp add: interval_callback_def Let_def kill_forEach_throws [of throws ws throws'])

lemma callback_empty:
  "Object_keys ws = [] \<Longrightarrow> interval_callback throws ws = ([ClearTimeout, Resolve], Cleared)"
  by (simp add: interval_callback_def)

lemma callback_nonempty:
  "Object_keys ws \<noteq> [] \<Longrightarrow>
   interval_callback throws ws =
     (concat (map (\<lambda>k. fst (kill_body throws ws k)) (Object_keys ws)), Continue)"
  by (simp add: interval_callback_def kill_forEach_concat)

lemma kill_body_effects:
  assumes "e \<in> set (fst (kill_body throws ws j))"
  shows "(\<exists>w. map_of ws j = Some w \<and> \<not> isDead w) \<and> (e = Kill j \<or> (\<exists>f s m. e = Log f s m))"
proof (cases "map_of ws j")
  case None
  then show ?thesis using assms by (simp add: kill_body_def)
next
  case (Some w)
  then show ?thesis using assms by (auto simp: kill_body_known split: if_splits)
qed

lemma callback_kill:
  "Kill i \<in> set (fst (interval_callback throws ws)) \<longleftrightarrow> (\<exists>w. map_of ws i = Some w \<and> \<not> isDead w)"
proof (cases "Object_keys ws = []")
  case True
  then have "ws = []" by (simp add: Object_keys_empty)
  with True show ?thesis by (simp add: callback_empty)
next
  case False
  show ?thesis
  proof
    assume "Kill i \<in> set (fst (interval_callback throws ws))"
    then obtain j where "Kill i \<in> set (fst (kill_body throws ws j))"
      using False by (auto simp: callback_nonempty)
    then show "\<exists>w. map_of ws i = Some w \<and> \<not> isDead w"
      using kill_body_effects [of "Kill i" throws ws j] by auto
  next
    assume "\<exists>w. map_of ws i = Some w \<and> \<not> isDead w"
    then obtain w where w: "map_of ws i = Some w" "\<not> isDead w" by blast
    then have "i \<in> set (Object_keys ws)" by (auto simp: Object_keys_lookup)
    moreover have "Kill i \<in> set (fst (kill_body throws ws i))" using w by (simp add: kill_body_known)
    ultimately show "Kill i \<in> set (fst (interval_callback throws ws))"
      using False by (auto simp: callback_nonempty)
  qed
qed


lemma drain_empty:
  "Object_keys ws = [] \<Longrightarrow> drain ((ws, throws) # ticks) = ([ClearTimeout, Resolve], Resolved)"
  by (simp add: callback_empty drain.simps(2))


lemma drain_nonempty:
  "Object_keys ws \<noteq> [] \<Longrightarrow>
   drain ((ws, throws) # ticks) =
     (fst (interval_callback throws ws) @ fst (drain ticks), snd (drain ticks))"
  by (simp add: callback_nonempty drain.simps(2) split: prod.splits)

lemma drain_status:
  "snd (drain ticks) = (if \<exists>t \<in> set ticks. Object_keys (fst t) = [] then Resolved else Pending)"
proof (induction ticks)
  case Nil
  then show ?case by simp
next
  case (Cons t ticks)
  obtain ws throws where t: "t = (ws, throws)" by (cases t)
  show ?case
  proof (cases "Object_keys ws = []")
    case True
    then show ?thesis by (simp add: t drain_empty)
  next
    case False
    then show ?thesis using Cons by (simp add: t drain_nonempty)
  qed
qed





lemma drain_throws:
  "drain (map (\<lambda>t. (fst t, throws')) ticks) = drain ticks"
proof (induction ticks)
  case Nil
  then show ?case by simp
next
  case (Cons t ticks)
  obtain ws throws where t: "t = (ws, throws)" by (cases t)
  show ?case
  proof (cases "Object_keys ws = []")
    case True
    then show ?thesis by (simp add: t drain_empty)
  next
    case False
    then show ?thesis using Cons callback_throws [of throws' ws throws]
      by (simp add: t drain_nonempty)
  qed
qed

lemma stop_guards:
  "stop k c io ticks = Some r \<Longrightarrow>
   rs k ''ctx:procmode'' = Some (RsStr ''master'') \<and>
   \<not> daemon (options k) \<and> \<not> daemon_kill (options k)"
  by (auto simp: stop_def split: if_splits)

lemma stop_returned:
  "rs k ''ctx:procmode'' = Some (RsStr ''master'') \<Longrightarrow>
   \<not> daemon (options k) \<Longrightarrow> \<not> daemon_kill (options k) \<Longrightarrow>
   snd (graceful io (workers c)) = None \<Longrightarrow>
   stop k c io ticks =
     Some (Log ''cluster'' ''info'' (Plain ''shutdown WORKER processes'')
             # fst (graceful io (workers c)) @ SetInterval 100 # fst (drain ticks),
           snd (drain ticks))"
  by (cases "graceful io (workers c)") (simp add: stop_def split: prod.splits)

lemma stop_rejected:
  "rs k ''ctx:procmode'' = Some (RsStr ''master'') \<Longrightarrow>
   \<not> daemon (options k) \<Longrightarrow> \<not> daemon_kill (options k) \<Longrightarrow>
   snd (graceful io (workers c)) = Some ex \<Longrightarrow>
   stop k c io ticks =
     Some (Log ''cluster'' ''info'' (Plain ''shutdown WORKER processes'')
             # fst (graceful io (workers c)), Rejected ex)"
  by (cases "graceful io (workers c)") (simp add: stop_def)

section \<open>The respawn policy\<close>

text \<open>
  C1. For every \<^verbatim>\<open>exit\<close> event of a worker that the master observes: when the worker
  was not marked for shutdown (\<^verbatim>\<open>worker.suicide\<close> is falsy, the exit is a crash), the
  handler issues exactly one fork and emits exactly one log line of severity \<open>info\<close>, the
  one that reports the re-fork; when the worker was marked (the exit is voluntary), the
  handler issues no fork.
\<close>

theorem exit_respawn:
  "(\<not> truthy (suicide w) \<longrightarrow>
      count_list (on_exit w code signal) Fork = 1 \<and>
      severity_count ''info'' (on_exit w code signal) = 1 \<and>
      Log ''cluster'' ''info'' (Sprintf ''re-forking WORKER process after unexpected termination'' [])
        \<in> set (on_exit w code signal)) \<and>
   (truthy (suicide w) \<longrightarrow> count_list (on_exit w code signal) Fork = 0)"
  by (simp add: on_exit_def severity_count_def Let_def)

theorem exit_respawn_witness:
  "\<not> truthy (suicide worker_1) \<and>
   count_list (on_exit worker_1 (JNum 1) JNull) Fork = 1 \<and>
   severity_count ''info'' (on_exit worker_1 (JNum 1) JNull) = 1 \<and>
   Log ''cluster'' ''info'' (Sprintf ''re-forking WORKER process after unexpected termination'' [])
     \<in> set (on_exit worker_1 (JNum 1) JNull) \<and>
   truthy (suicide worker_2) \<and>
   count_list (on_exit worker_2 JNull (JStr ''SIGTERM'')) Fork = 0"
  using exit_respawn [of worker_1 "JNum 1" JNull]
    exit_respawn [of worker_2 JNull "JStr ''SIGTERM''"]
  by (simp add: worker_1_def worker_2_def)

section \<open>The startup of the master\<close>

text \<open>
  C3. For every configured instance count \<open>N > 0\<close>, in the master and with both daemon
  flags unset, \<^verbatim>\<open>prepare\<close> issues exactly \<open>N\<close> forks.
\<close>

theorem startup_forks:
  "0 < cluster (options k) \<Longrightarrow> \<not> daemon (options k) \<Longrightarrow> \<not> daemon_kill (options k) \<Longrightarrow>
   isMaster c \<Longrightarrow>
   count_list (snd (prepare k c)) Fork = nat (cluster (options k))"
  by (simp add: prepare_def procmode_def fork_loop_replicate count_list_replicate)

theorem startup_forks_witness:
  "0 < cluster (options (kernel_of 3 False False Map.empty)) \<and>
   \<not> daemon (options (kernel_of 3 False False Map.empty)) \<and>
   \<not> daemon_kill (options (kernel_of 3 False False Map.empty)) \<and>
   isMaster idle_cluster \<and>
   count_list (snd (prepare (kernel_of 3 False False Map.empty) idle_cluster)) Fork = 3"
  using startup_forks [of "kernel_of 3 False False Map.empty" idle_cluster]
  by (simp add: kernel_of_def idle_cluster_def)

text \<open>
  C10, as stated, for every configured count below \<open>0\<close> with both daemon flags unset:
  \<^verbatim>\<open>prepare\<close> registers the five lifecycle handlers. In a worker process it does not:
  with the count \<open>-1\<close> it subscribes to the IPC messages of the process and registers
  the two decorators, and no handler of \<^verbatim>\<open>exit\<close>.
\<close>

theorem negative_count_worker:
  "cluster (options (kernel_of (- 1) False False Map.empty)) < 0 \<and>
   \<not> daemon (options (kernel_of (- 1) False False Map.empty)) \<and>
   \<not> daemon_kill (options (kernel_of (- 1) False False Map.empty)) \<and>
   snd (prepare (kernel_of (- 1) False False Map.empty) worker_cluster) =
     [ProcessOn ''message'', Latch ''logger:msg'', Latch ''title:title''] \<and>
   ClusterOn ''exit'' \<notin> set (snd (prepare (kernel_of (- 1) False False Map.empty) worker_cluster))"
  by (simp add: prepare_def kernel_of_def worker_cluster_def procmode_def)

text \<open>
  C10, amended. For every configured count below \<open>0\<close> with both daemon flags unset,
  \<^verbatim>\<open>prepare\<close> activates the module: it publishes the cluster handle and the resolved
  process mode, registers both decorators, and forks nothing. In the master the mode
  is \<open>master\<close> and it registers the five lifecycle handlers and logs the count; in a
  worker the mode is \<open>worker\<close> and it registers the handler of IPC messages instead.
\<close>

theorem negative_count:
  assumes "cluster (options k) < 0" and "\<not> daemon (options k)" and "\<not> daemon_kill (options k)"
  shows "rs (fst (prepare k c)) ''cluster'' = Some RsCluster \<and>
         rs (fst (prepare k c)) ''ctx:procmode'' = Some (RsStr (procmode c)) \<and>
         count_list (snd (prepare k c)) Fork = 0 \<and>
         (isMaster c \<longrightarrow>
            procmode c = ''master'' \<and>
            snd (prepare k c) =
              [ClusterOn ''fork'', ClusterOn ''online'', ClusterOn ''listening'',
               ClusterOn ''disconnect'', ClusterOn ''exit'',
               Log ''cluster'' ''info''
                 (Sprintf ''forking %d WORKER processes'' [JNum (cluster (options k))]),
               Latch ''logger:msg'', Latch ''title:title'']) \<and>
         (\<not> isMaster c \<longrightarrow>
            procmode c = ''worker'' \<and>
            snd (prepare k c) =
              [ProcessOn ''message'', Latch ''logger:msg'', Latch ''title:title''])"
  using assms by (simp add: prepare_def procmode_def fork_loop_replicate)

theorem negative_count_witness:
  "cluster (options (kernel_of (- 2) False False Map.empty)) < 0 \<and>
   \<not> daemon (options (kernel_of (- 2) False False Map.empty)) \<and>
   \<not> daemon_kill (options (kernel_of (- 2) False False Map.empty)) \<and>
   isMaster idle_cluster \<and>
   rs (fst (prepare (kernel_of (- 2) False False Map.empty) idle_cluster)) ''ctx:procmode''
     = Some (RsStr ''master'') \<and>
   snd (prepare (kernel_of (- 2) False False Map.empty) idle_cluster) =
     [ClusterOn ''fork'', ClusterOn ''online'', ClusterOn ''listening'',
      ClusterOn ''disconnect'', ClusterOn ''exit'',
      Log ''cluster'' ''info'' (Sprintf ''forking %d WORKER processes'' [JNum (- 2)]),
      Latch ''logger:msg'', Latch ''title:title''] \<and>
   count_list (snd (prepare (kernel_of (- 2) False False Map.empty) idle_cluster)) Fork = 0 \<and>
   \<not> isMaster worker_cluster \<and>
   rs (fst (prepare (kernel_of (- 2) False False Map.empty) worker_cluster)) ''ctx:procmode''
     = Some (RsStr ''worker'') \<and>
   snd (prepare (kernel_of (- 2) False False Map.empty) worker_cluster) =
     [ProcessOn ''message'', Latch ''logger:msg'', Latch ''title:title'']"
  using negative_count [of "kernel_of (- 2) False False Map.empty" idle_cluster]
    negative_count [of "kernel_of (- 2) False False Map.empty" worker_cluster]
  by (simp add: kernel_of_def idle_cluster_def worker_cluster_def procmode_def)

section \<open>The guards\<close>

text \<open>
  C5, as stated, has \<^verbatim>\<open>stop\<close> do nothing when the configured count is \<open>0\<close>, whatever
  the rest of the state. The guard of \<^verbatim>\<open>stop\<close> reads the published process mode, not
  the count: with the count \<open>0\<close> and the mode \<open>master\<close> in the registry, an inert
  \<^verbatim>\<open>prepare\<close> is followed by a \<^verbatim>\<open>stop\<close> that logs, sends the shutdown message,
  disconnects, arms the timer and kills.
\<close>

theorem stop_ungated_by_count:
  "cluster (options (kernel_of 0 False False [''ctx:procmode'' \<mapsto> RsStr ''master''])) = 0 \<and>
   prepare (kernel_of 0 False False [''ctx:procmode'' \<mapsto> RsStr ''master'']) master_cluster =
     (kernel_of 0 False False [''ctx:procmode'' \<mapsto> RsStr ''master''], []) \<and>
   stop (fst (prepare (kernel_of 0 False False [''ctx:procmode'' \<mapsto> RsStr ''master''])
           master_cluster)) master_cluster sound_ipc [(workers master_cluster, never_throws)] =
     Some ([Log ''cluster'' ''info'' (Plain ''shutdown WORKER processes''),
            Send 1 (JStr ''shutdown''), Disconnect 1, SetInterval 100,
            Log ''cluster'' ''trace'' (Sprintf ''remaining worker #%d (pid: %d): to be killed now''
              [JNum 1, JNum 4001]), Kill 1,
            Log ''cluster'' ''trace'' (Sprintf ''remaining worker #%d (pid: %d): to be killed now''
              [JNum 2, JNum 4002]), Kill 2], Pending)"
proof -
  let ?k = "kernel_of 0 False False [''ctx:procmode'' \<mapsto> RsStr ''master'']"
  have keys: "Object_keys (workers master_cluster) = [1, 2, 3]"
    by (simp add: Object_keys_def master_cluster_def)
  have gr: "graceful sound_ipc (workers master_cluster) = ([Send 1 (JStr ''shutdown''), Disconnect 1], None)"
    by (simp add: graceful_def keys)
      (simp add: master_cluster_def shutdown_body_def then_do_def worker_send_def
        worker_disconnect_def sound_ipc_def never_throws_def isConnected_def
        worker_1_def worker_2_def worker_3_def)
  have cb: "interval_callback never_throws (workers master_cluster) =
      ([Log ''cluster'' ''trace'' (Sprintf ''remaining worker #%d (pid: %d): to be killed now''
              [JNum 1, JNum 4001]), Kill 1,
        Log ''cluster'' ''trace'' (Sprintf ''remaining worker #%d (pid: %d): to be killed now''
              [JNum 2, JNum 4002]), Kill 2], Continue)"
    by (simp add: interval_callback_def keys)
      (simp add: master_cluster_def kill_body_def try_catch_nop_def worker_kill_def
        never_throws_def isDead_def worker_1_def worker_2_def worker_3_def)
  have p: "prepare ?k master_cluster = (?k, [])"
    by (simp add: prepare_def kernel_of_def)
  show ?thesis
    by (simp add: p) (simp add: stop_def kernel_of_def gr drain.simps cb)
qed

text \<open>
  C5, amended. When the configured count is \<open>0\<close> or a daemon flag is set, \<^verbatim>\<open>prepare\<close>
  does nothing: no fork, no subscription, no decorator, and the registry is unchanged.
  \<^verbatim>\<open>stop\<close> does nothing when a daemon flag is set, and nothing when the published
  process mode is not \<open>master\<close>; so with the count \<open>0\<close>, \<^verbatim>\<open>stop\<close> after
  \<^verbatim>\<open>prepare\<close> does nothing provided the registry did not already hold the mode
  \<open>master\<close>.
\<close>

theorem inert_core:
  "(cluster (options k) = 0 \<or> daemon (options k) \<or> daemon_kill (options k) \<longrightarrow>
      prepare k c = (k, [])) \<and>
   (daemon (options k) \<or> daemon_kill (options k) \<longrightarrow> stop k c io ticks = None) \<and>
   (rs k ''ctx:procmode'' \<noteq> Some (RsStr ''master'') \<longrightarrow> stop k c io ticks = None) \<and>
   (cluster (options k) = 0 \<and> rs k ''ctx:procmode'' \<noteq> Some (RsStr ''master'') \<longrightarrow>
      stop (fst (prepare k c)) c io ticks = None)"
  by (simp add: prepare_def stop_def)

theorem inert_core_witness:
  "cluster (options (kernel_of 0 False False Map.empty)) = 0 \<and>
   prepare (kernel_of 0 False False Map.empty) master_cluster =
     (kernel_of 0 False False Map.empty, []) \<and>
   rs (kernel_of 0 False False Map.empty) ''ctx:procmode'' \<noteq> Some (RsStr ''master'') \<and>
   stop (kernel_of 0 False False Map.empty) master_cluster sound_ipc
     [(workers master_cluster, never_throws)] = None \<and>
   stop (fst (prepare (kernel_of 0 False False Map.empty) master_cluster)) master_cluster sound_ipc
     [(workers master_cluster, never_throws)] = None \<and>
   daemon (options (kernel_of 4 True False [''ctx:procmode'' \<mapsto> RsStr ''master''])) \<and>
   prepare (kernel_of 4 True False [''ctx:procmode'' \<mapsto> RsStr ''master'']) master_cluster =
     (kernel_of 4 True False [''ctx:procmode'' \<mapsto> RsStr ''master''], []) \<and>
   stop (kernel_of 4 True False [''ctx:procmode'' \<mapsto> RsStr ''master'']) master_cluster sound_ipc
     [(workers master_cluster, never_throws)] = None \<and>
   daemon_kill (options (kernel_of 4 False True Map.empty)) \<and>
   prepare (kernel_of 4 False True Map.empty) worker_cluster =
     (kernel_of 4 False True Map.empty, [])"
  using inert_core [of "kernel_of 0 False False Map.empty" master_cluster sound_ipc
      "[(workers master_cluster, never_throws)]"]
    inert_core [of "kernel_of 4 True False [''ctx:procmode'' \<mapsto> RsStr ''master'']" master_cluster
      sound_ipc "[(workers master_cluster, never_throws)]"]
    inert_core [of "kernel_of 4 False True Map.empty" worker_cluster sound_ipc "[]"]
  by (simp add: kernel_of_def)

section \<open>The worker\<close>

text \<open>
  C6. In a worker (\<^verbatim>\<open>cluster.worker\<close> is the own worker object), an IPC message equal
  to the string \<open>shutdown\<close> makes the handler log the receipt and call the shutdown
  service of the kernel, once each; for every other message the handler does nothing.
\<close>

theorem worker_message:
  "(worker c = Some w \<longrightarrow>
      on_message c (JStr ''shutdown'') =
        Inr [Log ''cluster'' ''trace'' (Sprintf ''worker #%d (pid: %d): received shutdown message''
               [JNum (int (wid w)), JNum (int (pid w))]),
             Shutdown ''received MASTER shutdown message'']) \<and>
   (msg \<noteq> JStr ''shutdown'' \<longrightarrow> on_message c msg = Inr [])"
  by (simp add: on_message_def)

theorem worker_message_witness:
  "worker worker_cluster = Some worker_12 \<and>
   on_message worker_cluster (JStr ''shutdown'') =
     Inr [Log ''cluster'' ''trace'' (Sprintf ''worker #%d (pid: %d): received shutdown message''
            [JNum 12, JNum 4012]),
          Shutdown ''received MASTER shutdown message''] \<and>
   JStr ''Shutdown'' \<noteq> JStr ''shutdown'' \<and>
   on_message worker_cluster (JStr ''Shutdown'') = Inr [] \<and>
   on_message worker_cluster (JObj [(''cmd'', JStr ''shutdown'')]) = Inr []"
  using worker_message [of worker_cluster worker_12 "JStr ''Shutdown''"]
    worker_message [of worker_cluster worker_12 "JObj [(''cmd'', JStr ''shutdown'')]"]
  by (simp add: worker_cluster_def worker_12_def)

section \<open>The decorators\<close>

text \<open>
  C9. The decorator of log lines returns the message prefixed with \<open>[MASTER]: \<close> in the
  master and with \<open>[WORKER-k]: \<close> in the worker of id \<open>k\<close>; the decorator of the process
  title returns the title with \<open> [MASTER]\<close> or \<open> [WORKER-k]\<close> appended. Both results
  depend on the process mode, the worker id and the text only.
\<close>

theorem decorators:
  "(isMaster c \<longrightarrow>
      logger_msg c msg = Inr (''[MASTER]: '' @ msg) \<and>
      title_title (procmode c) c title = Inr (title @ '' [MASTER]'')) \<and>
   (\<not> isMaster c \<and> worker c = Some w \<longrightarrow>
      logger_msg c msg = Inr (''[WORKER-'' @ Number_toString (wid w) @ '']: '' @ msg) \<and>
      title_title (procmode c) c title = Inr (title @ '' [WORKER-'' @ Number_toString (wid w) @ '']'')) \<and>
   (isMaster c = isMaster c' \<and> map_option wid (worker c) = map_option wid (worker c') \<longrightarrow>
      logger_msg c msg = logger_msg c' msg \<and>
      title_title (procmode c) c title = title_title (procmode c') c' title)"
  by (auto simp: logger_msg_def title_title_def procmode_def isWorker_def split: option.splits)

theorem decorators_witness:
  "isMaster master_cluster \<and>
   logger_msg master_cluster ''ready'' = Inr ''[MASTER]: ready'' \<and>
   title_title (procmode master_cluster) master_cluster ''app'' = Inr ''app [MASTER]'' \<and>
   \<not> isMaster worker_cluster \<and> worker worker_cluster = Some worker_12 \<and>
   logger_msg worker_cluster ''ready'' = Inr ''[WORKER-12]: ready'' \<and>
   title_title (procmode worker_cluster) worker_cluster ''app'' = Inr ''app [WORKER-12]'' \<and>
   isMaster master_cluster = isMaster idle_cluster \<and>
   map_option wid (worker master_cluster) = map_option wid (worker idle_cluster) \<and>
   logger_msg master_cluster ''ready'' = logger_msg idle_cluster ''ready''"
  using decorators [of master_cluster "''ready''" "''app''" worker_12 idle_cluster]
    decorators [of worker_cluster "''ready''" "''app''" worker_12 worker_cluster]
  by (auto simp: master_cluster_def idle_cluster_def worker_cluster_def worker_12_def
      Number_toString.simps digit_def)

section \<open>The shutdown\<close>



text \<open>
  C7. A \<^verbatim>\<open>kill\<close> that throws during a tick of the timer changes nothing: the callback
  makes the same calls and ends the same way as when no \<^verbatim>\<open>kill\<close> throws, it never
  throws itself, and the whole shutdown has the same trace and the same state of the
  promise. No exception leaves the timer callback, and when the first traversal returned
  the promise is not rejected. The callback calls \<^verbatim>\<open>kill\<close> exactly on the workers
  of the pool that are not dead.
\<close>

theorem kill_failure_swallowed:
  "interval_callback throws ws = interval_callback never_throws ws \<and>
   snd (interval_callback throws ws) \<noteq> Threw ex \<and>
   (Kill i \<in> set (fst (interval_callback throws ws)) \<longleftrightarrow>
      (\<exists>w. map_of ws i = Some w \<and> \<not> isDead w)) \<and>
   stop k c io ticks = stop k c io (map (\<lambda>t. (fst t, never_throws)) ticks) \<and>
   stop k c io ticks \<noteq> Some (es, Uncaught ex) \<and>
   (snd (graceful io (workers c)) = None \<longrightarrow> stop k c io ticks \<noteq> Some (es, Rejected ex))"
proof -
  have a: "interval_callback throws ws = interval_callback never_throws ws"
    by (rule callback_throws)
  have b: "snd (interval_callback throws ws) \<noteq> Threw ex"
    by (cases "Object_keys ws = []") (simp_all add: callback_empty callback_nonempty)
  have c: "Kill i \<in> set (fst (interval_callback throws ws)) \<longleftrightarrow>
      (\<exists>w. map_of ws i = Some w \<and> \<not> isDead w)"
    by (rule callback_kill)
  have d: "stop k c io ticks = stop k c io (map (\<lambda>t. (fst t, never_throws)) ticks)"
    by (simp add: stop_def drain_throws)
  have e: "stop k c io ticks \<noteq> Some (es, Uncaught ex)"
  proof
    assume run: "stop k c io ticks = Some (es, Uncaught ex)"
    note g = stop_guards [OF run]
    show False
    proof (cases "snd (graceful io (workers c))")
      case None
      then show False using run g stop_returned [of k io c ticks]
        by (auto simp: drain_status split: if_splits)
    next
      case (Some ex')
      then show False using run g stop_rejected [of k io c ex' ticks] by simp
    qed
  qed
  have f: "snd (graceful io (workers c)) = None \<longrightarrow> stop k c io ticks \<noteq> Some (es, Rejected ex)"
  proof (intro impI notI)
    assume ret: "snd (graceful io (workers c)) = None"
      and run: "stop k c io ticks = Some (es, Rejected ex)"
    show False
      using run stop_guards [OF run] stop_returned [of k io c ticks] ret
      by (auto simp: drain_status split: if_splits)
  qed
  from a b c d e f show ?thesis by blast
qed

theorem kill_failure_swallowed_witness:
  "interval_callback always_throws (workers master_cluster) =
     ([Log ''cluster'' ''trace'' (Sprintf ''remaining worker #%d (pid: %d): to be killed now''
         [JNum 1, JNum 4001]), Kill 1,
       Log ''cluster'' ''trace'' (Sprintf ''remaining worker #%d (pid: %d): to be killed now''
         [JNum 2, JNum 4002]), Kill 2], Continue) \<and>
   interval_callback always_throws (workers master_cluster) =
     interval_callback never_throws (workers master_cluster) \<and>
   snd (graceful sound_ipc (workers master_cluster)) = None \<and>
   stop (kernel_of 3 False False [''ctx:procmode'' \<mapsto> RsStr ''master'']) master_cluster sound_ipc
       [(workers master_cluster, always_throws), ([], never_throws)] =
     Some ([Log ''cluster'' ''info'' (Plain ''shutdown WORKER processes''),
            Send 1 (JStr ''shutdown''), Disconnect 1, SetInterval 100,
            Log ''cluster'' ''trace'' (Sprintf ''remaining worker #%d (pid: %d): to be killed now''
              [JNum 1, JNum 4001]), Kill 1,
            Log ''cluster'' ''trace'' (Sprintf ''remaining worker #%d (pid: %d): to be killed now''
              [JNum 2, JNum 4002]), Kill 2,
            ClearTimeout, Resolve], Resolved) \<and>
   (Kill 2 \<in> set (fst (interval_callback always_throws (workers master_cluster)))) \<and>
   (Kill 3 \<notin> set (fst (interval_callback always_throws (workers master_cluster))))"
proof -
  let ?k = "kernel_of 3 False False [''ctx:procmode'' \<mapsto> RsStr ''master'']"
  let ?ticks = "[(workers master_cluster, always_throws), ([], never_throws)]"
  let ?kills = "[Log ''cluster'' ''trace'' (Sprintf ''remaining worker #%d (pid: %d): to be killed now''
         [JNum 1, JNum 4001]), Kill 1,
       Log ''cluster'' ''trace'' (Sprintf ''remaining worker #%d (pid: %d): to be killed now''
         [JNum 2, JNum 4002]), Kill 2]"
  have keys: "Object_keys (workers master_cluster) = [1, 2, 3]"
    by (simp add: Object_keys_def master_cluster_def)
  have cb: "interval_callback always_throws (workers master_cluster) = (?kills, Continue)"
    by (simp add: interval_callback_def keys)
      (simp add: master_cluster_def kill_body_def try_catch_nop_def worker_kill_def
        always_throws_def isDead_def worker_1_def worker_2_def worker_3_def)
  have gr: "graceful sound_ipc (workers master_cluster) = ([Send 1 (JStr ''shutdown''), Disconnect 1], None)"
    by (simp add: graceful_def keys)
      (simp add: master_cluster_def shutdown_body_def then_do_def worker_send_def
        worker_disconnect_def sound_ipc_def never_throws_def isConnected_def
        worker_1_def worker_2_def worker_3_def)
  have dr: "drain ?ticks = (?kills @ [ClearTimeout, Resolve], Resolved)"
    by (simp add: drain.simps cb) (simp add: interval_callback_def Object_keys_def)
  have run: "stop ?k master_cluster sound_ipc ?ticks =
      Some (Log ''cluster'' ''info'' (Plain ''shutdown WORKER processes'')
            # [Send 1 (JStr ''shutdown''), Disconnect 1] @ [SetInterval 100]
            @ ?kills @ [ClearTimeout, Resolve], Resolved)"
    by (simp add: stop_def kernel_of_def gr dr)
  have same: "interval_callback always_throws (workers master_cluster) =
      interval_callback never_throws (workers master_cluster)"
    using kill_failure_swallowed [of always_throws "workers master_cluster" KillFailed 2
        ?k master_cluster sound_ipc ?ticks "[]"]
    by (rule conjunct1)
  have run': "stop ?k master_cluster sound_ipc ?ticks =
      Some (Log ''cluster'' ''info'' (Plain ''shutdown WORKER processes'')
            # Send 1 (JStr ''shutdown'') # Disconnect 1 # SetInterval 100
            # ?kills @ [ClearTimeout, Resolve], Resolved)"
    using run by simp
  have k2: "Kill 2 \<in> set (fst (interval_callback always_throws (workers master_cluster)))"
    by (simp add: cb)
  have k3: "Kill 3 \<notin> set (fst (interval_callback always_throws (workers master_cluster)))"
    by (simp add: cb)
  have ret: "snd (graceful sound_ipc (workers master_cluster)) = None"
    by (simp add: gr)
  from cb same ret run' k2 k3 show ?thesis by simp
qed




text \<open>
  C8, as stated, has a \<^verbatim>\<open>stop\<close> that is invoked with the empty pool perform no side
  effect. Every such invocation logs a line of severity \<open>info\<close> and arms a timer, which
  it clears at the first tick.
\<close>

theorem stop_again_has_effects:
  "workers idle_cluster = [] \<and>
   stop (kernel_of 2 False False [''ctx:procmode'' \<mapsto> RsStr ''master'']) idle_cluster sound_ipc
       [([], never_throws)] =
     Some ([Log ''cluster'' ''info'' (Plain ''shutdown WORKER processes''),
            SetInterval 100, ClearTimeout, Resolve], Resolved) \<and>
   [Log ''cluster'' ''info'' (Plain ''shutdown WORKER processes''),
    SetInterval 100, ClearTimeout, Resolve] \<noteq> []"
  by (simp add: stop_def kernel_of_def idle_cluster_def graceful_def Object_keys_def
      drain.simps interval_callback_def)

text \<open>
  C8, amended. With the empty pool, at the call and at the first tick, every invocation
  of \<^verbatim>\<open>stop\<close> that passes the guards is resolved at that tick, and its calls are the
  same each time: the log line, the timer set and cleared, and \<^verbatim>\<open>resolve\<close>; no
  message, no disconnect, no kill, no fork.
\<close>

theorem stop_empty_pool:
  assumes "rs k ''ctx:procmode'' = Some (RsStr ''master'')"
    and "\<not> daemon (options k)" and "\<not> daemon_kill (options k)"
    and "workers c = []" and "fst t = []"
  shows "stop k c io (t # ticks) =
           Some ([Log ''cluster'' ''info'' (Plain ''shutdown WORKER processes''),
                  SetInterval 100, ClearTimeout, Resolve], Resolved)"
proof -
  obtain throws where t: "t = ([], throws)" using assms(5) by (cases t) auto
  have "graceful io [] = ([], None)" by (simp add: graceful_def Object_keys_def)
  moreover have "drain (([], throws) # ticks) = ([ClearTimeout, Resolve], Resolved)"
    by (rule drain_empty) (simp add: Object_keys_def)
  ultimately show ?thesis using assms(1-4) by (simp add: stop_def t)
qed

theorem stop_empty_pool_witness:
  "rs (kernel_of 2 False False [''ctx:procmode'' \<mapsto> RsStr ''master'']) ''ctx:procmode''
     = Some (RsStr ''master'') \<and>
   \<not> daemon (options (kernel_of 2 False False [''ctx:procmode'' \<mapsto> RsStr ''master''])) \<and>
   \<not> daemon_kill (options (kernel_of 2 False False [''ctx:procmode'' \<mapsto> RsStr ''master''])) \<and>
   workers idle_cluster = [] \<and>
   stop (kernel_of 2 False False [''ctx:procmode'' \<mapsto> RsStr ''master'']) idle_cluster broken_ipc
       [([], always_throws), (workers master_cluster, never_throws)] =
     Some ([Log ''cluster'' ''info'' (Plain ''shutdown WORKER processes''),
            SetInterval 100, ClearTimeout, Resolve], Resolved)"
  using stop_empty_pool [of "kernel_of 2 False False [''ctx:procmode'' \<mapsto> RsStr ''master'']"
      idle_cluster "([], always_throws)" broken_ipc "[(workers master_cluster, never_throws)]"]
  by (simp add: kernel_of_def idle_cluster_def)

end
